theory Spec2Isabelle
  imports Complex_Main
begin

section \<open>Python values and exceptions\<close>

text \<open>
  The workout builder works on dictionaries loaded from a YAML plan.  A loaded value is
  modelled by \<open>pyval\<close>: the YAML scalars, sequences, and mappings with string keys,
  kept as association lists read with \<open>map_of\<close>.  Python floats are modelled by the
  exact rationals they stand for: rounding to binary64, infinities and NaN are not part
  of the model.

  Every exception the source can raise is a constructor of \<open>error\<close>; a function that can
  raise returns \<open>error + 'a\<close> with \<open>Inl\<close> for the exception.  \<open>Unmodelled\<close> marks the one
  place where the source's result depends on Python's \<open>repr\<close> of a container
  (\<open>str(distance_str)\<close> in \<open>parse_distance\<close>), which the model does not reproduce.
\<close>

datatype pyval =
    PNone
  | PBool bool
  | PInt int
  | PFloat rat
  | PStr string
  | PList "pyval list"
  | PDict "(string \<times> pyval) list"

datatype error =
    ValueError
  | TypeError
  | AttributeError
  | KeyError
  | IndexError
  | ZeroDivisionError
  | OverflowError
  | Unmodelled

definition ebind :: "error + 'a \<Rightarrow> ('a \<Rightarrow> error + 'b) \<Rightarrow> error + 'b" where
  "ebind m f = (case m of Inl e \<Rightarrow> Inl e | Inr x \<Rightarrow> f x)"

text \<open>Truth value of a Python object, as tested by \<open>if not distance\<close> and \<open>if distance\<close>.\<close>

fun truthy :: "pyval \<Rightarrow> bool" where
  "truthy PNone = False"
| "truthy (PBool b) = b"
| "truthy (PInt n) = (n \<noteq> 0)"
| "truthy (PFloat x) = (x \<noteq> 0)"
| "truthy (PStr s) = (s \<noteq> [])"
| "truthy (PList xs) = (xs \<noteq> [])"
| "truthy (PDict d) = (d \<noteq> [])"

subsection \<open>String operations\<close>

text \<open>
  \<open>str.strip()\<close> removes the whitespace characters of the ASCII range (space, the
  controls 9 to 13 and 28 to 31); \<open>str.lower()\<close> and \<open>str.upper()\<close> are modelled on
  ASCII letters.
\<close>

definition is_space :: "char \<Rightarrow> bool" where
  "is_space c = (let n = (of_char c :: nat) in n = 32 \<or> (9 \<le> n \<and> n \<le> 13) \<or> (28 \<le> n \<and> n \<le> 31))"

definition strip :: "string \<Rightarrow> string" where
  "strip s = rev (dropWhile is_space (rev (dropWhile is_space s)))"

definition lower_char :: "char \<Rightarrow> char" where
  "lower_char c = (let n = (of_char c :: nat) in if 65 \<le> n \<and> n \<le> 90 then char_of (n + 32) else c)"

definition upper_char :: "char \<Rightarrow> char" where
  "upper_char c = (let n = (of_char c :: nat) in if 97 \<le> n \<and> n \<le> 122 then char_of (n - 32) else c)"

definition lower :: "string \<Rightarrow> string" where
  "lower s = map lower_char s"

fun capitalize :: "string \<Rightarrow> string" where
  "capitalize [] = []"
| "capitalize (c # cs) = upper_char c # map lower_char cs"

fun starts_with :: "string \<Rightarrow> string \<Rightarrow> bool" where
  "starts_with [] s = True"
| "starts_with (p # ps) [] = False"
| "starts_with (p # ps) (c # cs) = (p = c \<and> starts_with ps cs)"

text \<open>\<open>sub in s\<close> for two strings: the substring test.\<close>

fun str_contains :: "string \<Rightarrow> string \<Rightarrow> bool" where
  "str_contains sub [] = (sub = [])"
| "str_contains sub (c # cs) = (starts_with sub (c # cs) \<or> str_contains sub cs)"

text \<open>\<open>s.split(sep)\<close> for a one-character separator: always at least one part.\<close>

fun split_on :: "char \<Rightarrow> string \<Rightarrow> string list" where
  "split_on sep [] = [[]]"
| "split_on sep (c # cs) =
     (if c = sep then [] # split_on sep cs
      else (case split_on sep cs of [] \<Rightarrow> [[c]] | p # ps \<Rightarrow> (c # p) # ps))"

text \<open>\<open>s.replace(old, '')\<close> for a non-empty \<open>old\<close>: occurrences are removed left to right.\<close>

fun remove_all :: "string \<Rightarrow> string \<Rightarrow> string" where
  "remove_all old [] = []"
| "remove_all old (c # cs) =
     (if old \<noteq> [] \<and> starts_with old (c # cs) then remove_all old (drop (length old - 1) cs)
      else c # remove_all old cs)"

text \<open>List indexing \<open>parts[i]\<close> for \<open>i \<ge> 0\<close>, raising \<open>IndexError\<close> out of range.\<close>

definition index :: "'a list \<Rightarrow> nat \<Rightarrow> error + 'a" where
  "index xs i = (if i < length xs then Inr (xs ! i) else Inl IndexError)"

subsection \<open>The builtins \<open>int\<close> and \<open>float\<close> on strings\<close>

text \<open>
  \<open>int(s)\<close> accepts surrounding whitespace, an optional sign and decimal digits;
  \<open>float(s)\<close> accepts surrounding whitespace, an optional sign, a decimal mantissa with an
  optional point and an optional exponent.  Anything else raises \<open>ValueError\<close>.  The
  spellings with underscores between digits, and \<open>inf\<close> and \<open>nan\<close>, are not modelled.
\<close>

definition is_digit :: "char \<Rightarrow> bool" where
  "is_digit c = (let n = (of_char c :: nat) in 48 \<le> n \<and> n \<le> 57)"

definition digit_val :: "char \<Rightarrow> nat" where
  "digit_val c = (of_char c :: nat) - 48"

definition digits_val :: "string \<Rightarrow> nat" where
  "digits_val ds = foldl (\<lambda>acc c. 10 * acc + digit_val c) 0 ds"

text \<open>Splits an optional leading sign off: the sign as \<open>1\<close> or \<open>-1\<close>, and the rest.\<close>

fun take_sign :: "string \<Rightarrow> int \<times> string" where
  "take_sign [] = (1, [])"
| "take_sign (c # cs) =
     (if c = CHR ''-'' then (-1, cs) else if c = CHR ''+'' then (1, cs) else (1, c # cs))"

definition int_of_str :: "string \<Rightarrow> error + int" where
  "int_of_str s =
     (let (sgn, ds) = take_sign (strip s)
      in if ds \<noteq> [] \<and> list_all is_digit ds then Inr (sgn * int (digits_val ds))
         else Inl ValueError)"

text \<open>The exponent part of a float literal: empty, or \<open>e\<close>/\<open>E\<close>, an optional sign and digits.\<close>

fun exponent_of :: "string \<Rightarrow> error + int" where
  "exponent_of [] = Inr 0"
| "exponent_of (c # cs) =
     (if c = CHR ''e'' \<or> c = CHR ''E'' then
        (let (sgn, ds) = take_sign cs
         in if ds \<noteq> [] \<and> list_all is_digit ds then Inr (sgn * int (digits_val ds))
            else Inl ValueError)
      else Inl ValueError)"

definition pow10 :: "int \<Rightarrow> rat" where
  "pow10 e = (if 0 \<le> e then 10 ^ nat e else 1 / 10 ^ nat (- e))"

definition float_of_str :: "string \<Rightarrow> error + rat" where
  "float_of_str s =
     (let (sgn, r0) = take_sign (strip s);
          ip = takeWhile is_digit r0;
          r1 = dropWhile is_digit r0;
          has_point = (r1 \<noteq> [] \<and> hd r1 = CHR ''.'');
          fp = (if has_point then takeWhile is_digit (tl r1) else []);
          r2 = (if has_point then dropWhile is_digit (tl r1) else r1)
      in if ip = [] \<and> fp = [] then Inl ValueError
         else ebind (exponent_of r2) (\<lambda>e.
           Inr (of_int sgn * of_nat (digits_val (ip @ fp)) / 10 ^ length fp * pow10 e)))"

text \<open>\<open>int(x)\<close> on a float truncates towards zero.\<close>

definition trunc :: "rat \<Rightarrow> int" where
  "trunc x = (if 0 \<le> x then \<lfloor>x\<rfloor> else \<lceil>x\<rceil>)"

section \<open>Unit converters\<close>

text \<open>
  \<open>WorkoutBuilder.parse_distance\<close>.  A number (\<open>bool\<close> is a subclass of \<open>int\<close>) is
  converted directly; anything else goes through \<open>str(...)\<close>, and on a string with a
  hyphen the second part of \<open>split('-')\<close> is parsed.
\<close>

definition parse_distance_str :: "string \<Rightarrow> error + rat" where
  "parse_distance_str s0 =
     (let distance_str = strip s0
      in if str_contains ''-'' distance_str then
           ebind (index (split_on CHR ''-'' distance_str) 1) (\<lambda>p. float_of_str (strip p))
         else float_of_str distance_str)"

fun parse_distance :: "pyval \<Rightarrow> error + rat" where
  "parse_distance (PInt n) = Inr (of_int n)"
| "parse_distance (PFloat x) = Inr x"
| "parse_distance (PBool b) = Inr (if b then 1 else 0)"
| "parse_distance (PStr s) = parse_distance_str s"
| "parse_distance PNone = parse_distance_str ''None''"
| "parse_distance (PList xs) = Inl Unmodelled"
| "parse_distance (PDict d) = Inl Unmodelled"

text \<open>
  \<open>WorkoutBuilder.parse_duration\<close>.  The argument must be a string (\<open>.strip()\<close> on
  anything else raises \<open>AttributeError\<close>).
\<close>

definition parse_duration_str :: "string \<Rightarrow> error + int" where
  "parse_duration_str s0 =
     ebind (let s1 = lower (strip s0)
            in if str_contains ''-'' s1 then
                 ebind (index (split_on CHR ''-'' s1) 1) (\<lambda>p. Inr (strip p))
               else Inr s1) (\<lambda>duration_str.
     if str_contains ''min'' duration_str then
       ebind (float_of_str (strip (remove_all ''min'' duration_str))) (\<lambda>minutes.
         Inr (trunc (minutes * 60)))
     else if str_contains ''sec'' duration_str then
       ebind (float_of_str (strip (remove_all ''sec'' duration_str))) (\<lambda>x. Inr (trunc x))
     else
       (let parts = split_on CHR '':'' duration_str
        in if str_contains '':'' duration_str \<and> length parts = 3 then
             ebind (int_of_str (parts ! 0)) (\<lambda>h.
             ebind (int_of_str (parts ! 1)) (\<lambda>m.
             ebind (int_of_str (parts ! 2)) (\<lambda>s. Inr (h * 3600 + m * 60 + s))))
           else if str_contains '':'' duration_str \<and> length parts = 2 then
             ebind (int_of_str (parts ! 0)) (\<lambda>m.
             ebind (int_of_str (parts ! 1)) (\<lambda>s. Inr (m * 60 + s)))
           else ebind (float_of_str duration_str) (\<lambda>x. Inr (trunc x))))"

fun parse_duration :: "pyval \<Rightarrow> error + int" where
  "parse_duration (PStr s) = parse_duration_str s"
| "parse_duration v = Inl AttributeError"

text \<open>
  \<open>WorkoutBuilder.pace_to_speed\<close>: \<open>parts[0]\<close> and \<open>parts[1]\<close> of \<open>split(':')\<close> as
  integers, then the float division \<open>1609.34 / pace_seconds_per_mile\<close>, which raises
  \<open>ZeroDivisionError\<close> on zero.
\<close>

definition meters_per_mile :: rat where
  "meters_per_mile = 1609.34"

definition pace_to_speed :: "string \<Rightarrow> error + rat" where
  "pace_to_speed pace_str =
     (let parts = split_on CHR '':'' pace_str
      in ebind (ebind (index parts 0) int_of_str) (\<lambda>minutes.
         ebind (ebind (index parts 1) int_of_str) (\<lambda>seconds.
         let pace_seconds_per_mile = minutes * 60 + seconds
         in if pace_seconds_per_mile = 0 then Inl ZeroDivisionError
            else Inr (meters_per_mile / of_int pace_seconds_per_mile))))"

section \<open>Dictionary access\<close>

text \<open>
  \<open>key in x\<close>, \<open>x[key]\<close> and \<open>x.get(key, default)\<close> for a string key, on whatever value
  the plan holds at that place: \<open>in\<close> on a string is the substring test, on a list the
  membership test, and raises \<open>TypeError\<close> on the other scalars; indexing anything but a
  dictionary with a string raises \<open>TypeError\<close>, and only a dictionary has \<open>get\<close>.
\<close>

fun py_in :: "string \<Rightarrow> pyval \<Rightarrow> error + bool" where
  "py_in k (PDict d) = Inr (map_of d k \<noteq> None)"
| "py_in k (PStr s) = Inr (str_contains k s)"
| "py_in k (PList xs) = Inr (PStr k \<in> set xs)"
| "py_in k v = Inl TypeError"

fun py_getitem :: "pyval \<Rightarrow> string \<Rightarrow> error + pyval" where
  "py_getitem (PDict d) k = (case map_of d k of None \<Rightarrow> Inl KeyError | Some v \<Rightarrow> Inr v)"
| "py_getitem v k = Inl TypeError"

fun py_get :: "pyval \<Rightarrow> string \<Rightarrow> pyval \<Rightarrow> error + pyval" where
  "py_get (PDict d) k dflt = Inr (case map_of d k of None \<Rightarrow> dflt | Some v \<Rightarrow> v)"
| "py_get v k dflt = Inl AttributeError"

text \<open>\<open>x * 1609.34\<close>: defined on numbers, \<open>TypeError\<close> on everything else.\<close>

fun py_mul_float :: "pyval \<Rightarrow> rat \<Rightarrow> error + pyval" where
  "py_mul_float (PInt n) r = Inr (PFloat (of_int n * r))"
| "py_mul_float (PFloat x) r = Inr (PFloat (x * r))"
| "py_mul_float (PBool b) r = Inr (PFloat ((if b then 1 else 0) * r))"
| "py_mul_float v r = Inl TypeError"

section \<open>Target-zone resolver\<close>

text \<open>
  The target dictionary built by \<open>get_target_speed_zone\<close> and \<open>get_no_target\<close>; the two
  value entries are absent from the "no target" shape.
\<close>

record target =
  workoutTargetTypeId :: int
  workoutTargetTypeKey :: string
  targetValueOne :: "rat option"
  targetValueTwo :: "rat option"

definition get_no_target :: target where
  "get_no_target =
     \<lparr>workoutTargetTypeId = 1, workoutTargetTypeKey = ''no.target'',
      targetValueOne = None, targetValueTwo = None\<rparr>"

text \<open>
  \<open>WorkoutBuilder.get_target_speed_zone\<close>.  The pace table \<open>self.paces\<close> maps zone names
  to pace strings.  A zone that is not a key gives "no target" (the warning is a log line
  only); a dictionary or a list as zone is unhashable and \<open>not in\<close> raises \<open>TypeError\<close>.
\<close>

fun get_target_speed_zone :: "(string \<rightharpoonup> string) \<Rightarrow> pyval \<Rightarrow> error + target" where
  "get_target_speed_zone paces (PDict d) = Inl TypeError"
| "get_target_speed_zone paces (PList xs) = Inl TypeError"
| "get_target_speed_zone paces (PStr pace_zone) =
     (case paces pace_zone of
        None \<Rightarrow> Inr get_no_target
      | Some pace_str \<Rightarrow>
          ebind (pace_to_speed pace_str) (\<lambda>speed_mps.
            Inr \<lparr>workoutTargetTypeId = 6, workoutTargetTypeKey = ''pace.zone'',
                 targetValueOne = Some (speed_mps * 0.95),
                 targetValueTwo = Some (speed_mps * 1.05)\<rparr>))"
| "get_target_speed_zone paces v = Inr get_no_target"

section \<open>Compiled steps\<close>

record step_type =
  stepTypeId :: int
  stepTypeKey :: string

record end_condition =
  conditionTypeId :: int
  conditionTypeKey :: string

text \<open>
  A leaf step (\<open>ExecutableStepDTO\<close>).  \<open>targetType\<close> is the target dictionary after the
  two values were popped from it; they sit at step level when present.
\<close>

record executable_step =
  stepOrder :: int
  stepType :: step_type
  endCondition :: end_condition
  endConditionValue :: pyval
  targetType :: target
  stepTargetValueOne :: "rat option"
  stepTargetValueTwo :: "rat option"

datatype workout_step =
    ExecutableStepDTO executable_step
  | RepeatGroupDTO int pyval "workout_step list"

text \<open>
  \<open>WorkoutBuilder.create_executable_step\<close>: \<open>target_type or self.get_no_target()\<close>
  (a target dictionary is never empty, so a given one is always used), then the two
  \<open>pop\<close>s.
\<close>

definition create_executable_step ::
  "int \<Rightarrow> int \<Rightarrow> string \<Rightarrow> int \<Rightarrow> string \<Rightarrow> pyval \<Rightarrow> target option \<Rightarrow> workout_step" where
  "create_executable_step step_order step_type_id step_type_key end_condition_id
       end_condition_key end_condition_value target_type =
     (let tgt = (case target_type of None \<Rightarrow> get_no_target | Some t \<Rightarrow> t);
          target_value_one = targetValueOne tgt;
          target_value_two = targetValueTwo tgt
      in ExecutableStepDTO
           \<lparr>stepOrder = step_order,
            stepType = \<lparr>stepTypeId = step_type_id, stepTypeKey = step_type_key\<rparr>,
            endCondition = \<lparr>conditionTypeId = end_condition_id,
                            conditionTypeKey = end_condition_key\<rparr>,
            endConditionValue = end_condition_value,
            targetType = tgt\<lparr>targetValueOne := None, targetValueTwo := None\<rparr>,
            stepTargetValueOne = target_value_one,
            stepTargetValueTwo = target_value_two\<rparr>)"

definition create_repeat_group :: "int \<Rightarrow> pyval \<Rightarrow> workout_step list \<Rightarrow> workout_step" where
  "create_repeat_group step_order iterations steps = RepeatGroupDTO step_order iterations steps"

text \<open>The leaf steps of a step tree, in order.\<close>

fun leaves :: "workout_step \<Rightarrow> executable_step list" where
  "leaves (ExecutableStepDTO s) = [s]"
| "leaves (RepeatGroupDTO n it ss) = concat (map leaves ss)"

section \<open>Step compiler\<close>

text \<open>
  \<open>WorkoutBuilder._build_structured_workout\<close> appends to \<open>steps\<close> and counts
  \<open>step_order\<close> up; the model threads the pair through one function per phase, in the
  order of the source.
\<close>

type_synonym build_state = "workout_step list \<times> int"

definition build_warmup :: "(string \<rightharpoonup> string) \<Rightarrow> pyval \<Rightarrow> build_state \<Rightarrow> error + build_state" where
  "build_warmup paces structure st =
     (case st of (steps, step_order) \<Rightarrow>
      ebind (py_in ''warmup'' structure) (\<lambda>present.
      if \<not> present then Inr (steps, step_order)
      else
        ebind (py_getitem structure ''warmup'') (\<lambda>warmup.
        ebind (py_get warmup ''distance'' (PInt 2)) (\<lambda>d.
        ebind (parse_distance d) (\<lambda>distance_miles.
        let distance_meters = distance_miles * meters_per_mile in
        ebind (py_get warmup ''pace'' (PStr ''general_aerobic'')) (\<lambda>pace_zone.
        ebind (get_target_speed_zone paces pace_zone) (\<lambda>tgt.
        Inr (steps @ [create_executable_step step_order 1 ''warmup'' 3 ''distance''
                        (PFloat distance_meters) (Some tgt)],
             step_order + 1))))))))"

text \<open>The work leaf of an intervals phase: time-based if \<open>'duration' in work\<close>, else distance-based.\<close>

definition build_work :: "(string \<rightharpoonup> string) \<Rightarrow> pyval \<Rightarrow> error + workout_step" where
  "build_work paces work =
     ebind (py_in ''duration'' work) (\<lambda>timed.
     if timed then
       ebind (py_getitem work ''duration'') (\<lambda>duration_str.
       ebind (parse_duration duration_str) (\<lambda>duration_secs.
       ebind (py_get work ''pace'' (PStr ''lactate_threshold'')) (\<lambda>pace_zone.
       ebind (get_target_speed_zone paces pace_zone) (\<lambda>tgt.
       Inr (create_executable_step 1 3 ''interval'' 2 ''time'' (PInt duration_secs) (Some tgt))))))
     else
       ebind (py_get work ''distance'' (PInt 600)) (\<lambda>work_distance_meters0.
       ebind (py_get work ''unit'' PNone) (\<lambda>unit.
       ebind (if unit = PStr ''meters'' then Inr work_distance_meters0
              else py_mul_float work_distance_meters0 meters_per_mile) (\<lambda>work_distance_meters.
       ebind (py_get work ''pace'' (PStr ''vo2max'')) (\<lambda>pace_zone.
       ebind (get_target_speed_zone paces pace_zone) (\<lambda>tgt.
       Inr (create_executable_step 1 3 ''interval'' 3 ''distance'' work_distance_meters
              (Some tgt))))))))"

text \<open>The recovery leaf, only when the rest phase has \<open>type == 'jog'\<close>.\<close>

definition build_rest :: "pyval \<Rightarrow> error + workout_step list" where
  "build_rest rest =
     ebind (py_get rest ''type'' PNone) (\<lambda>ty.
     if ty = PStr ''jog'' then
       ebind (py_in ''duration'' rest) (\<lambda>given.
       ebind (if given then ebind (py_getitem rest ''duration'') parse_duration
              else Inr 150) (\<lambda>rest_duration.
       Inr [create_executable_step 2 4 ''recovery'' 2 ''time'' (PInt rest_duration)
              (Some get_no_target)]))
     else Inr [])"

definition build_intervals :: "(string \<rightharpoonup> string) \<Rightarrow> pyval \<Rightarrow> build_state \<Rightarrow> error + build_state" where
  "build_intervals paces structure st =
     (case st of (steps, step_order) \<Rightarrow>
      ebind (py_in ''intervals'' structure) (\<lambda>present.
      if \<not> present then Inr (steps, step_order)
      else
        ebind (py_getitem structure ''intervals'') (\<lambda>intervals.
        ebind (py_get intervals ''work'' (PDict [])) (\<lambda>work.
        ebind (build_work paces work) (\<lambda>work_step.
        ebind (py_get intervals ''rest'' (PDict [])) (\<lambda>rest.
        ebind (build_rest rest) (\<lambda>rest_steps.
        let repeat_steps = [work_step] @ rest_steps in
        ebind (py_get intervals ''repeat'' (PInt 1)) (\<lambda>iterations.
        Inr (steps @ [create_repeat_group step_order iterations repeat_steps],
             step_order + 1)))))))))"

text \<open>
  The main phase, taken only when there is no intervals phase.  \<open>step_order\<close> is counted
  up also when the phase has neither a duration nor a distance and adds no step.
\<close>

definition build_main :: "(string \<rightharpoonup> string) \<Rightarrow> pyval \<Rightarrow> build_state \<Rightarrow> error + build_state" where
  "build_main paces structure st =
     (case st of (steps, step_order) \<Rightarrow>
      ebind (py_in ''main'' structure) (\<lambda>has_main.
      ebind (if has_main then ebind (py_in ''intervals'' structure) (\<lambda>b. Inr (\<not> b))
             else Inr False) (\<lambda>taken.
      if \<not> taken then Inr (steps, step_order)
      else
        ebind (py_getitem structure ''main'') (\<lambda>main.
        ebind (py_in ''duration'' main) (\<lambda>timed.
        if timed then
          ebind (py_getitem main ''duration'') (\<lambda>duration_str.
          ebind (parse_duration duration_str) (\<lambda>duration_secs.
          ebind (py_get main ''pace'' (PStr ''lactate_threshold'')) (\<lambda>pace_zone.
          ebind (get_target_speed_zone paces pace_zone) (\<lambda>tgt.
          Inr (steps @ [create_executable_step step_order 3 ''interval'' 2 ''time''
                          (PInt duration_secs) (Some tgt)],
               step_order + 1)))))
        else
          ebind (py_in ''distance'' main) (\<lambda>by_distance.
          if by_distance then
            ebind (py_getitem main ''distance'') (\<lambda>d.
            ebind (parse_distance d) (\<lambda>distance_miles.
            let distance_meters = distance_miles * meters_per_mile in
            ebind (py_get main ''pace'' (PStr ''marathon_pace'')) (\<lambda>pace_zone.
            ebind (get_target_speed_zone paces pace_zone) (\<lambda>tgt.
            Inr (steps @ [create_executable_step step_order 3 ''interval'' 3 ''distance''
                            (PFloat distance_meters) (Some tgt)],
                 step_order + 1)))))
          else Inr (steps, step_order + 1)))))))"

definition build_cooldown :: "(string \<rightharpoonup> string) \<Rightarrow> pyval \<Rightarrow> build_state \<Rightarrow> error + build_state" where
  "build_cooldown paces structure st =
     (case st of (steps, step_order) \<Rightarrow>
      ebind (py_in ''cooldown'' structure) (\<lambda>present.
      if \<not> present then Inr (steps, step_order)
      else
        ebind (py_getitem structure ''cooldown'') (\<lambda>cooldown.
        ebind (py_get cooldown ''distance'' (PInt 2)) (\<lambda>d.
        ebind (parse_distance d) (\<lambda>distance_miles.
        let distance_meters = distance_miles * meters_per_mile in
        ebind (py_get cooldown ''pace'' (PStr ''general_aerobic'')) (\<lambda>pace_zone.
        ebind (get_target_speed_zone paces pace_zone) (\<lambda>tgt.
        Inr (steps @ [create_executable_step step_order 2 ''cooldown'' 3 ''distance''
                        (PFloat distance_meters) (Some tgt)],
             step_order))))))))"

definition build_structured_workout ::
  "(string \<rightharpoonup> string) \<Rightarrow> pyval \<Rightarrow> int \<Rightarrow> error + workout_step list" where
  "build_structured_workout paces structure start_order =
     ebind (build_warmup paces structure ([], start_order)) (\<lambda>st1.
     ebind (build_intervals paces structure st1) (\<lambda>st2.
     ebind (build_main paces structure st2) (\<lambda>st3.
     ebind (build_cooldown paces structure st3) (\<lambda>st4. Inr (fst st4)))))"

text \<open>
  \<open>pace_zone_map.get(workout_type, 'general_aerobic')\<close>; a dictionary or a list as
  key is unhashable.
\<close>

definition pace_zone_map :: "string \<rightharpoonup> string" where
  "pace_zone_map = map_of
     [(''recovery'', ''recovery''),
      (''general_aerobic'', ''general_aerobic''),
      (''endurance'', ''endurance''),
      (''medium_long_run'', ''endurance''),
      (''long_run'', ''endurance''),
      (''marathon_pace_run'', ''marathon_pace''),
      (''lactate_threshold'', ''lactate_threshold''),
      (''vo2max'', ''vo2max'')]"

fun pace_zone_for :: "pyval \<Rightarrow> error + string" where
  "pace_zone_for (PStr workout_type) =
     Inr (case pace_zone_map workout_type of None \<Rightarrow> ''general_aerobic'' | Some z \<Rightarrow> z)"
| "pace_zone_for (PDict d) = Inl TypeError"
| "pace_zone_for (PList xs) = Inl TypeError"
| "pace_zone_for v = Inr ''general_aerobic''"

text \<open>\<open>WorkoutBuilder._build_simple_workout\<close>.\<close>

definition build_simple_workout ::
  "(string \<rightharpoonup> string) \<Rightarrow> pyval \<Rightarrow> pyval \<Rightarrow> int \<Rightarrow> error + workout_step list" where
  "build_simple_workout paces workout_type distance0 start_order =
     (let distance = (if \<not> truthy distance0 then PInt 5 else distance0) in
      ebind (parse_distance distance) (\<lambda>distance_miles.
      let distance_meters = distance_miles * meters_per_mile in
      ebind (pace_zone_for workout_type) (\<lambda>pace_zone.
      ebind (get_target_speed_zone paces (PStr pace_zone)) (\<lambda>tgt.
      Inr [create_executable_step start_order 3 ''interval'' 3 ''distance''
             (PFloat distance_meters) (Some tgt)]))))"

text \<open>\<open>WorkoutBuilder._estimate_duration\<close>.\<close>

definition estimate_duration :: "pyval \<Rightarrow> error + int" where
  "estimate_duration workout_data =
     ebind (py_get workout_data ''distance'' PNone) (\<lambda>distance.
     if truthy distance then
       ebind (parse_distance distance) (\<lambda>distance_miles.
       let estimated_minutes = distance_miles * 9 in Inr (trunc (estimated_minutes * 60)))
     else Inr 3600)"

text \<open>Decimal rendering of an integer inside an f-string.\<close>

fun digits_of :: "nat \<Rightarrow> string" where
  "digits_of n = (if n < 10 then [char_of (48 + n)] else digits_of (n div 10) @ [char_of (48 + n mod 10)])"

definition str_of_int :: "int \<Rightarrow> string" where
  "str_of_int i = (if i < 0 then CHR ''-'' # digits_of (nat (- i)) else digits_of (nat i))"

text \<open>
  The workout document.  The constant \<open>sportType\<close> entries (running, id 1) of the
  document and of its segment are left out; the scheduling date is not used by the
  builder.
\<close>

record workout_segment =
  segmentOrder :: int
  workoutSteps :: "workout_step list"

record workout =
  workoutName :: string
  description :: pyval
  estimatedDurationInSecs :: int
  workoutSegments :: "workout_segment list"

definition build_workout_from_yaml ::
  "(string \<rightharpoonup> string) \<Rightarrow> pyval \<Rightarrow> int \<Rightarrow> string \<Rightarrow> error + workout" where
  "build_workout_from_yaml paces workout_data week_number day_name =
     ebind (py_get workout_data ''type'' (PStr ''general_aerobic'')) (\<lambda>workout_type.
     ebind (py_get workout_data ''description'' (PStr [])) (\<lambda>descr.
     ebind (py_get workout_data ''distance'' PNone) (\<lambda>distance.
     let workout_name = ''NYC Marathon 2026 - Week '' @ str_of_int week_number @ '' - ''
                          @ capitalize day_name in
     ebind (py_in ''structure'' workout_data) (\<lambda>structured.
     ebind (if structured then
              ebind (py_getitem workout_data ''structure'') (\<lambda>structure.
                build_structured_workout paces structure 1)
            else build_simple_workout paces workout_type distance 1) (\<lambda>steps.
     ebind (estimate_duration workout_data) (\<lambda>estimated_duration.
     Inr \<lparr>workoutName = workout_name,
          description = descr,
          estimatedDurationInSecs = estimated_duration,
          workoutSegments = [\<lparr>segmentOrder = 1, workoutSteps = steps\<rparr>]\<rparr>))))))"

text \<open>All steps of a document, and all its leaf steps.\<close>

definition workout_steps :: "workout \<Rightarrow> workout_step list" where
  "workout_steps w = concat (map workoutSteps (workoutSegments w))"

definition workout_leaves :: "workout \<Rightarrow> executable_step list" where
  "workout_leaves w = concat (map leaves (workout_steps w))"

section \<open>Schedule calculator\<close>

text \<open>
  A \<open>datetime\<close> at midnight is modelled by its proleptic Gregorian ordinal (day 1 is
  0001-01-01), which is what Python's date arithmetic computes with: adding a
  \<open>timedelta\<close> of whole days adds to the ordinal and raises \<open>OverflowError\<close> when the
  result leaves the years 1 to 9999.  \<open>ymd2ord\<close> and \<open>ord2ymd\<close> are the conversions of
  the \<open>datetime\<close> module between ordinals and calendar dates.
\<close>

type_synonym datetime = int

definition is_leap :: "int \<Rightarrow> bool" where
  "is_leap year = (year mod 4 = 0 \<and> (year mod 100 \<noteq> 0 \<or> year mod 400 = 0))"

definition days_in_month :: "int list" where
  "days_in_month = [31, 28, 31, 30, 31, 30, 31, 31, 30, 31, 30, 31]"

definition days_before_year :: "int \<Rightarrow> int" where
  "days_before_year year = (let y = year - 1 in y * 365 + y div 4 - y div 100 + y div 400)"

definition days_before_month :: "bool \<Rightarrow> int \<Rightarrow> int" where
  "days_before_month leap month =
     sum_list (take (nat (month - 1)) days_in_month) + (if 2 < month \<and> leap then 1 else 0)"

definition ymd2ord :: "int \<Rightarrow> int \<Rightarrow> int \<Rightarrow> datetime" where
  "ymd2ord year month day = days_before_year year + days_before_month (is_leap year) month + day"

definition ord2ymd :: "datetime \<Rightarrow> int \<times> int \<times> int" where
  "ord2ymd ordinal =
     (let n0 = ordinal - 1;
          n400 = n0 div 146097; n1' = n0 mod 146097;
          n100 = n1' div 36524; n2' = n1' mod 36524;
          n4 = n2' div 1461; n3' = n2' mod 1461;
          n1 = n3' div 365; n = n3' mod 365;
          year = n400 * 400 + 1 + n100 * 100 + n4 * 4 + n1
      in if n1 = 4 \<or> n100 = 4 then (year - 1, 12, 31)
         else
           (let leapyear = (n1 = 3 \<and> (n4 \<noteq> 24 \<or> n100 = 3));
                month0 = (n + 50) div 32;
                preceding0 = days_before_month leapyear month0;
                month = (if n < preceding0 then month0 - 1 else month0);
                preceding = (if n < preceding0
                             then preceding0 - (days_in_month ! nat (month - 1)
                                                + (if month = 2 \<and> leapyear then 1 else 0))
                             else preceding0)
            in (year, month, n - preceding + 1)))"

text \<open>Monday is 0, as \<open>datetime.weekday()\<close> has it.\<close>

definition weekday :: "datetime \<Rightarrow> int" where
  "weekday ordinal = (ordinal + 6) mod 7"

definition max_ordinal :: int where
  "max_ordinal = 3652059"

text \<open>\<open>timedelta(days=d)\<close>: the number of days is limited to nine digits.\<close>

definition timedelta :: "int \<Rightarrow> error + int" where
  "timedelta days =
     (if - 999999999 \<le> days \<and> days \<le> 999999999 then Inr days else Inl OverflowError)"

definition datetime_add :: "datetime \<Rightarrow> int \<Rightarrow> error + datetime" where
  "datetime_add d days =
     (if 0 < d + days \<and> d + days \<le> max_ordinal then Inr (d + days) else Inl OverflowError)"

text \<open>\<open>d - td\<close> is \<open>d + (-td)\<close>.\<close>

definition datetime_sub :: "datetime \<Rightarrow> int \<Rightarrow> error + datetime" where
  "datetime_sub d days = datetime_add d (- days)"

text \<open>
  \<open>GarminTrainingPlanSync.calculate_week_start_date\<close>.  \<open>race_date\<close> is the goal event's
  date as the date parser returned it.
\<close>

definition calculate_week_start_date :: "datetime \<Rightarrow> int \<Rightarrow> error + datetime" where
  "calculate_week_start_date race_date week_number =
     (let weeks_before_race = 19 - week_number in
      ebind (timedelta (7 * weeks_before_race)) (\<lambda>td.
      ebind (datetime_sub race_date td) (\<lambda>week_sunday.
      ebind (timedelta 6) (\<lambda>six.
      ebind (datetime_sub week_sunday six) (\<lambda>week_monday. Inr week_monday)))))"

definition day_offset :: "string \<rightharpoonup> int" where
  "day_offset = map_of
     [(''monday'', 0),
      (''tuesday'', 1),
      (''wednesday'', 2),
      (''thursday'', 3),
      (''friday'', 4),
      (''saturday'', 5),
      (''sunday'', 6)]"

text \<open>\<open>GarminTrainingPlanSync.get_workout_date\<close>.\<close>

definition get_workout_date :: "datetime \<Rightarrow> int \<Rightarrow> string \<Rightarrow> error + datetime" where
  "get_workout_date race_date week_number day_name =
     ebind (calculate_week_start_date race_date week_number) (\<lambda>week_start.
     case day_offset (lower day_name) of
       None \<Rightarrow> Inl ValueError
     | Some offset \<Rightarrow> ebind (timedelta offset) (\<lambda>td. datetime_add week_start td))"

section \<open>Example plan entries and the target-type invariant\<close>

text \<open>
  The week 1 Tuesday workout of the end-to-end example: three repeats of a 20 to 25
  minute lactate-threshold interval with a jog rest, and a pace table with that zone at
  6:30 per mile.
\<close>

definition tuesday_structure :: pyval where
  "tuesday_structure =
     PDict [(''intervals'', PDict
       [(''work'', PDict [(''duration'', PStr ''20-25 min''),
                         (''pace'', PStr ''lactate_threshold'')]),
        (''rest'', PDict [(''type'', PStr ''jog'')]),
        (''repeat'', PInt 3)])]"

definition tuesday_workout :: pyval where
  "tuesday_workout =
     PDict [(''type'', PStr ''lactate_threshold''), (''structure'', tuesday_structure)]"

definition tuesday_paces :: "string \<rightharpoonup> string" where
  "tuesday_paces = [''lactate_threshold'' \<mapsto> ''6:30'']"

definition tuesday_steps :: "workout_step list" where
  "tuesday_steps =
     [RepeatGroupDTO 1 (PInt 3)
        [ExecutableStepDTO
           \<lparr>stepOrder = 1,
            stepType = \<lparr>stepTypeId = 3, stepTypeKey = ''interval''\<rparr>,
            endCondition = \<lparr>conditionTypeId = 2, conditionTypeKey = ''time''\<rparr>,
            endConditionValue = PInt 1500,
            targetType = \<lparr>workoutTargetTypeId = 6, workoutTargetTypeKey = ''pace.zone'',
                          targetValueOne = None, targetValueTwo = None\<rparr>,
            stepTargetValueOne = Some (1609.34 / 390 * 0.95),
            stepTargetValueTwo = Some (1609.34 / 390 * 1.05)\<rparr>,
         ExecutableStepDTO
           \<lparr>stepOrder = 2,
            stepType = \<lparr>stepTypeId = 4, stepTypeKey = ''recovery''\<rparr>,
            endCondition = \<lparr>conditionTypeId = 2, conditionTypeKey = ''time''\<rparr>,
            endConditionValue = PInt 150,
            targetType = \<lparr>workoutTargetTypeId = 1, workoutTargetTypeKey = ''no.target'',
                          targetValueOne = None, targetValueTwo = None\<rparr>,
            stepTargetValueOne = None,
            stepTargetValueTwo = None\<rparr>]]"

definition tuesday_document :: workout where
  "tuesday_document =
     \<lparr>workoutName = ''NYC Marathon 2026 - Week 1 - Tuesday'',
      description = PStr [],
      estimatedDurationInSecs = 3600,
      workoutSegments = [\<lparr>segmentOrder = 1, workoutSteps = tuesday_steps\<rparr>]\<rparr>"

text \<open>A plan entry of type \<open>rest\<close> and nothing else, and what the builder makes of it.\<close>

definition rest_day :: pyval where
  "rest_day = PDict [(''type'', PStr ''rest'')]"

definition five_mile_step :: workout_step where
  "five_mile_step =
     ExecutableStepDTO
       \<lparr>stepOrder = 1,
        stepType = \<lparr>stepTypeId = 3, stepTypeKey = ''interval''\<rparr>,
        endCondition = \<lparr>conditionTypeId = 3, conditionTypeKey = ''distance''\<rparr>,
        endConditionValue = PFloat 8046.7,
        targetType = \<lparr>workoutTargetTypeId = 1, workoutTargetTypeKey = ''no.target'',
                      targetValueOne = None, targetValueTwo = None\<rparr>,
        stepTargetValueOne = None,
        stepTargetValueTwo = None\<rparr>"

definition rest_day_document :: workout where
  "rest_day_document =
     \<lparr>workoutName = ''NYC Marathon 2026 - Week 1 - Monday'',
      description = PStr [],
      estimatedDurationInSecs = 3600,
      workoutSegments = [\<lparr>segmentOrder = 1, workoutSteps = [five_mile_step]\<rparr>]\<rparr>"

text \<open>The target type of a leaf is "no target" (1) or "pace zone" (6).\<close>

definition target_id_ok :: "executable_step \<Rightarrow> bool" where
  "target_id_ok s =
     (workoutTargetTypeId (targetType s) = 1 \<or> workoutTargetTypeId (targetType s) = 6)"

definition step_ok :: "workout_step \<Rightarrow> bool" where
  "step_ok s = list_all target_id_ok (leaves s)"

section \<open>Basic facts\<close>

lemmas str_defs = strip_def lower_def lower_char_def upper_char_def is_space_def is_digit_def
  digit_val_def digits_val_def index_def int_of_str_def float_of_str_def pow10_def trunc_def
  ebind_def Let_def

lemmas conv_defs = parse_distance_str_def parse_duration_str_def pace_to_speed_def
  meters_per_mile_def

lemmas build_defs = build_warmup_def build_work_def build_rest_def build_intervals_def
  build_main_def build_cooldown_def build_structured_workout_def build_simple_workout_def
  estimate_duration_def create_executable_step_def create_repeat_group_def get_no_target_def
  pace_zone_map_def

lemmas date_defs = ymd2ord_def days_before_year_def days_before_month_def is_leap_def
  days_in_month_def max_ordinal_def

lemma ebind_Inr_iff: "ebind m f = Inr y \<longleftrightarrow> (\<exists>x. m = Inr x \<and> f x = Inr y)"
  by (cases m) (simp_all add: ebind_def)

lemma ebind_Inr [simp]: "ebind (Inr x) f = f x"
  by (simp add: ebind_def)

lemma ebind_Inl [simp]: "ebind (Inl e) f = Inl e"
  by (simp add: ebind_def)

lemma lower_Tuesday: "lower ''Tuesday'' = ''tuesday''"
  by code_simp

lemma week1_names:
  "str_of_int 1 = ''1''" "capitalize ''tuesday'' = ''Tuesday''" "capitalize ''monday'' = ''Monday''"
  by code_simp+

lemma pace_6_30: "pace_to_speed ''6:30'' = Inr (1609.34 / 390)"
  by (simp add: conv_defs str_defs)

text \<open>The conversions between ordinals and calendar dates agree on the dates used below.\<close>

lemma ord2ymd_examples:
  "ord2ymd (ymd2ord 2026 11 1) = (2026, 11, 1)"
  "ord2ymd (ymd2ord 2026 6 22) = (2026, 6, 22)"
  "ord2ymd (ymd2ord 2026 6 29) = (2026, 6, 29)"
  by (simp_all add: date_defs ord2ymd_def Let_def)

lemma tuesday_structure_compiles:
  "build_structured_workout tuesday_paces tuesday_structure 1 = Inr tuesday_steps"
  by (simp add: tuesday_paces_def tuesday_structure_def tuesday_steps_def build_defs conv_defs
      str_defs)

lemma tuesday_compiles:
  "build_workout_from_yaml tuesday_paces tuesday_workout 1 ''tuesday'' = Inr tuesday_document"
  by (simp add: build_workout_from_yaml_def tuesday_workout_def tuesday_document_def
      tuesday_structure_compiles estimate_duration_def week1_names del: capitalize.simps)

lemma rest_day_compiles:
  "build_workout_from_yaml Map.empty rest_day 1 ''monday'' = Inr rest_day_document"
  by (simp add: build_workout_from_yaml_def rest_day_def rest_day_document_def five_mile_step_def
      build_defs meters_per_mile_def week1_names del: capitalize.simps)

section \<open>The compiled example (C1)\<close>

text \<open>
  C1.  The structured workout with
  \<open>{intervals: {work: {duration: "20-25 min", pace: "lactate_threshold"}, rest: {type: "jog"}, repeat: 3}}\<close>
  and the pace table \<open>{lactate_threshold: "6:30"}\<close> compiles to exactly one top-level
  step: a repeat group with 3 iterations and two children in order, a work leaf
  terminated by time after 1500 seconds with the pace-zone target type (id 6), and a
  recovery leaf terminated by time after 150 seconds with the no-target type (id 1).
\<close>

theorem tuesday_intervals_compile:
  "build_structured_workout tuesday_paces tuesday_structure 1 =
     Inr [RepeatGroupDTO 1 (PInt 3)
            [ExecutableStepDTO
               \<lparr>stepOrder = 1,
                stepType = \<lparr>stepTypeId = 3, stepTypeKey = ''interval''\<rparr>,
                endCondition = \<lparr>conditionTypeId = 2, conditionTypeKey = ''time''\<rparr>,
                endConditionValue = PInt 1500,
                targetType = \<lparr>workoutTargetTypeId = 6, workoutTargetTypeKey = ''pace.zone'',
                              targetValueOne = None, targetValueTwo = None\<rparr>,
                stepTargetValueOne = Some (1609.34 / 390 * 0.95),
                stepTargetValueTwo = Some (1609.34 / 390 * 1.05)\<rparr>,
             ExecutableStepDTO
               \<lparr>stepOrder = 2,
                stepType = \<lparr>stepTypeId = 4, stepTypeKey = ''recovery''\<rparr>,
                endCondition = \<lparr>conditionTypeId = 2, conditionTypeKey = ''time''\<rparr>,
                endConditionValue = PInt 150,
                targetType = \<lparr>workoutTargetTypeId = 1, workoutTargetTypeKey = ''no.target'',
                              targetValueOne = None, targetValueTwo = None\<rparr>,
                stepTargetValueOne = None,
                stepTargetValueTwo = None\<rparr>]]
   \<and> map_sum id workout_steps
         (build_workout_from_yaml tuesday_paces tuesday_workout 1 ''tuesday'') =
       build_structured_workout tuesday_paces tuesday_structure 1"
  by (simp add: tuesday_compiles tuesday_structure_compiles tuesday_document_def
      tuesday_steps_def workout_steps_def)

section \<open>Rest days (C2)\<close>

text \<open>
  C2, as stated: a workout whose type tag is \<open>rest\<close> compiles to a document with zero
  workout steps.  It does not: the entry \<open>{type: rest}\<close> goes down the simple path and
  comes out with one five-mile step.
\<close>

theorem rest_day_has_a_step:
  "build_workout_from_yaml Map.empty rest_day 1 ''monday'' = Inr rest_day_document
   \<and> workout_steps rest_day_document = [five_mile_step]
   \<and> workout_steps rest_day_document \<noteq> []"
  by (simp add: rest_day_compiles rest_day_document_def workout_steps_def)

text \<open>
  C2, amended: for a workout whose type tag is \<open>rest\<close> and that has no \<open>structure\<close>
  entry, every document the builder returns has exactly one workout step, a leaf
  terminated by distance.
\<close>

theorem rest_type_single_step:
  assumes "py_get workout_data ''type'' (PStr ''general_aerobic'') = Inr (PStr ''rest'')"
      and "py_in ''structure'' workout_data = Inr False"
      and "build_workout_from_yaml paces workout_data week_number day_name = Inr doc"
  shows "\<exists>s. workout_steps doc = [ExecutableStepDTO s] \<and> conditionTypeId (endCondition s) = 3"
  using assms
  by (auto simp: build_workout_from_yaml_def build_simple_workout_def ebind_Inr_iff Let_def
      workout_steps_def create_executable_step_def simp del: get_target_speed_zone.simps)

theorem rest_type_single_step_witness:
  "py_get rest_day ''type'' (PStr ''general_aerobic'') = Inr (PStr ''rest'')
   \<and> py_in ''structure'' rest_day = Inr False
   \<and> build_workout_from_yaml Map.empty rest_day 1 ''monday'' = Inr rest_day_document
   \<and> (\<exists>s. workout_steps rest_day_document = [ExecutableStepDTO s]
          \<and> conditionTypeId (endCondition s) = 3)"
proof -
  have t: "py_get rest_day ''type'' (PStr ''general_aerobic'') = Inr (PStr ''rest'')"
    by (simp add: rest_day_def)
  have s: "py_in ''structure'' rest_day = Inr False"
    by (simp add: rest_day_def)
  show ?thesis
    using t s rest_day_compiles rest_type_single_step [OF t s rest_day_compiles] by simp
qed

section \<open>Ranges (C3)\<close>

text \<open>
  C3.  On a hyphen-delimited range, \<open>parse_distance\<close> and \<open>parse_duration\<close> are said to
  use the maximum of the two bounds, in either order.  Both take the second part of
  \<open>split('-')\<close>: on an ascending range that is the maximum
  (\<open>parse_duration("20-25 min") = 1500\<close>), on a descending one it is the minimum.
\<close>

theorem range_takes_second_part:
  "parse_duration (PStr ''20-25 min'') = Inr 1500
   \<and> parse_duration (PStr ''25-20 min'') = Inr 1200
   \<and> parse_distance (PStr ''8-9'') = Inr 9
   \<and> parse_distance (PStr ''9-8'') = Inr 8"
  by (simp add: conv_defs str_defs)

section \<open>Week start dates (C4)\<close>

text \<open>
  C4, as stated: with the goal date 2026-11-01 and the span of 19 weeks, the Monday of
  week 1 is 2026-06-29.  It is not.
\<close>

theorem week1_monday_not_june_29:
  "calculate_week_start_date (ymd2ord 2026 11 1) 1 \<noteq> Inr (ymd2ord 2026 6 29)"
  by (simp add: calculate_week_start_date_def timedelta_def datetime_sub_def datetime_add_def
      date_defs)

text \<open>
  C4, amended: with the goal date 2026-11-01 (a Sunday) and the span of 19 weeks, the
  Monday of week 1 is 2026-06-22, 18 weeks and 6 days before the goal date.
\<close>

theorem week1_monday_is_june_22:
  "calculate_week_start_date (ymd2ord 2026 11 1) 1 = Inr (ymd2ord 2026 6 22)
   \<and> ymd2ord 2026 6 22 = ymd2ord 2026 11 1 - 7 * 18 - 6
   \<and> weekday (ymd2ord 2026 11 1) = 6
   \<and> weekday (ymd2ord 2026 6 22) = 0"
  by (simp add: calculate_week_start_date_def timedelta_def datetime_sub_def datetime_add_def
      date_defs weekday_def)

section \<open>The default work distance (C5)\<close>

text \<open>
  C5.  A work phase with neither a duration nor a distance is said to compile to a leaf
  terminated by distance after 600 meters.  The default 600 is taken as meters only when
  the phase has \<open>unit: meters\<close>; without a unit it is multiplied by 1609.34 like a
  distance in miles, and the leaf ends after 965604 meters.
\<close>

theorem default_work_distance_scaled:
  "build_work Map.empty (PDict []) =
     Inr (create_executable_step 1 3 ''interval'' 3 ''distance'' (PFloat 965604)
            (Some get_no_target))
   \<and> build_work Map.empty (PDict [(''unit'', PStr ''meters'')]) =
     Inr (create_executable_step 1 3 ''interval'' 3 ''distance'' (PInt 600)
            (Some get_no_target))
   \<and> build_structured_workout Map.empty (PDict [(''intervals'', PDict [])]) 1 =
     Inr [RepeatGroupDTO 1 (PInt 1)
            [create_executable_step 1 3 ''interval'' 3 ''distance'' (PFloat 965604)
               (Some get_no_target)]]"
  by (simp add: build_work_def build_rest_def build_intervals_def build_warmup_def
      build_main_def build_cooldown_def build_structured_workout_def create_repeat_group_def
      meters_per_mile_def)

section \<open>Workout dates (C6)\<close>

lemma day_offset_range: "day_offset n = Some off \<Longrightarrow> 0 \<le> off \<and> off \<le> 6"
  by (auto simp: day_offset_def split: if_splits)

lemma week_start_formula:
  assumes "1 \<le> w" "w \<le> 19" "133 \<le> g" "g \<le> max_ordinal"
  shows "calculate_week_start_date g w = Inr (g - 7 * (19 - w) - 6)"
  using assms
  by (simp add: calculate_week_start_date_def timedelta_def datetime_sub_def datetime_add_def
      max_ordinal_def)

lemma workout_date_general:
  assumes "1 \<le> w" "w \<le> 19" "day_offset (lower d) = Some off" "133 \<le> g" "g \<le> max_ordinal"
  shows "get_workout_date g w d = Inr (g - 7 * (19 - w) - 6 + off)"
proof -
  have "0 \<le> off \<and> off \<le> 6"
    using assms(3) by (rule day_offset_range)
  with assms show ?thesis
    by (simp add: get_workout_date_def week_start_formula timedelta_def datetime_add_def
        max_ordinal_def)
qed

lemma workout_date_unknown:
  assumes "1 \<le> w" "w \<le> 19" "day_offset (lower d) = None" "133 \<le> g" "g \<le> max_ordinal"
  shows "get_workout_date g w d = Inl ValueError"
  using assms by (simp add: get_workout_date_def week_start_formula)

text \<open>
  C6.  For a week number \<open>w\<close> from 1 to 19 and a weekday name \<open>d\<close> (in any letter
  case), \<open>get_workout_date\<close> returns the goal date minus \<open>19 - w\<close> weeks, minus 6 days,
  plus the offset of \<open>d\<close>, where the offsets are monday 0, tuesday 1, wednesday 2,
  thursday 3, friday 4, saturday 5 and sunday 6; any other name raises \<open>ValueError\<close>;
  and for week 19 and \<open>sunday\<close> it returns the goal date.  The goal date \<open>g\<close> is a date
  of the years 1 to 9999 late enough for week 1 to exist (ordinal 133 is 0001-05-13).
\<close>

theorem workout_date_formula:
  assumes "1 \<le> w" "w \<le> 19" "133 \<le> g" "g \<le> max_ordinal"
  shows "(lower d = ''monday'' \<longrightarrow> get_workout_date g w d = Inr (g - 7 * (19 - w) - 6 + 0))
       \<and> (lower d = ''tuesday'' \<longrightarrow> get_workout_date g w d = Inr (g - 7 * (19 - w) - 6 + 1))
       \<and> (lower d = ''wednesday'' \<longrightarrow> get_workout_date g w d = Inr (g - 7 * (19 - w) - 6 + 2))
       \<and> (lower d = ''thursday'' \<longrightarrow> get_workout_date g w d = Inr (g - 7 * (19 - w) - 6 + 3))
       \<and> (lower d = ''friday'' \<longrightarrow> get_workout_date g w d = Inr (g - 7 * (19 - w) - 6 + 4))
       \<and> (lower d = ''saturday'' \<longrightarrow> get_workout_date g w d = Inr (g - 7 * (19 - w) - 6 + 5))
       \<and> (lower d = ''sunday'' \<longrightarrow> get_workout_date g w d = Inr (g - 7 * (19 - w) - 6 + 6))
       \<and> (lower d \<notin> {''monday'', ''tuesday'', ''wednesday'', ''thursday'', ''friday'',
                       ''saturday'', ''sunday''} \<longrightarrow>
            get_workout_date g w d = Inl ValueError)
       \<and> get_workout_date g 19 ''sunday'' = Inr g"
proof -
  have mon: "lower d = ''monday'' \<Longrightarrow> day_offset (lower d) = Some 0"
    by (simp add: day_offset_def)
  have tue: "lower d = ''tuesday'' \<Longrightarrow> day_offset (lower d) = Some 1"
    by (simp add: day_offset_def)
  have wed: "lower d = ''wednesday'' \<Longrightarrow> day_offset (lower d) = Some 2"
    by (simp add: day_offset_def)
  have thu: "lower d = ''thursday'' \<Longrightarrow> day_offset (lower d) = Some 3"
    by (simp add: day_offset_def)
  have fri: "lower d = ''friday'' \<Longrightarrow> day_offset (lower d) = Some 4"
    by (simp add: day_offset_def)
  have sat: "lower d = ''saturday'' \<Longrightarrow> day_offset (lower d) = Some 5"
    by (simp add: day_offset_def)
  have sun: "lower d = ''sunday'' \<Longrightarrow> day_offset (lower d) = Some 6"
    by (simp add: day_offset_def)
  have other: "lower d \<notin> {''monday'', ''tuesday'', ''wednesday'', ''thursday'', ''friday'',
                 ''saturday'', ''sunday''} \<Longrightarrow> day_offset (lower d) = None"
    by (simp add: day_offset_def)
  have s: "day_offset (lower ''sunday'') = Some 6"
    by (simp add: day_offset_def lower_def lower_char_def)
  have race: "get_workout_date g 19 ''sunday'' = Inr g"
    using workout_date_general [of 19 "''sunday''" 6 g] assms(3,4) s by simp
  show ?thesis
    using workout_date_general [OF assms(1,2) mon assms(3,4)]
      workout_date_general [OF assms(1,2) tue assms(3,4)]
      workout_date_general [OF assms(1,2) wed assms(3,4)]
      workout_date_general [OF assms(1,2) thu assms(3,4)]
      workout_date_general [OF assms(1,2) fri assms(3,4)]
      workout_date_general [OF assms(1,2) sat assms(3,4)]
      workout_date_general [OF assms(1,2) sun assms(3,4)]
      workout_date_unknown [OF assms(1,2) other assms(3,4)]
      race
    by simp
qed

theorem workout_date_formula_witness:
  "lower ''Tuesday'' = ''tuesday''
   \<and> get_workout_date (ymd2ord 2026 11 1) 1 ''Tuesday'' = Inr (ymd2ord 2026 6 23)
   \<and> get_workout_date (ymd2ord 2026 11 1) 1 ''monday'' = Inr (ymd2ord 2026 6 22)
   \<and> get_workout_date (ymd2ord 2026 11 1) 1 ''funday'' = Inl ValueError
   \<and> get_workout_date (ymd2ord 2026 11 1) 19 ''sunday'' = Inr (ymd2ord 2026 11 1)"
proof -
  have l: "lower ''monday'' = ''monday''" "lower ''funday'' = ''funday''"
    by (simp_all add: lower_def lower_char_def)
  show ?thesis
    using workout_date_formula [of 1 "ymd2ord 2026 11 1" "''Tuesday''"]
      workout_date_formula [of 1 "ymd2ord 2026 11 1" "''monday''"]
      workout_date_formula [of 1 "ymd2ord 2026 11 1" "''funday''"]
      lower_Tuesday l
    by (simp add: date_defs)
qed

section \<open>Target resolution (C7)\<close>

text \<open>
  C7.  For a zone name that is not in the pace table, \<open>get_target_speed_zone\<close> returns
  (it does not raise) the "no target" shape, with target-type id 1.  For a zone name in
  the table whose pace string converts to a speed, it returns the target with id 6 and
  the range from \<open>speed * 0.95\<close> to \<open>speed * 1.05\<close>.
\<close>

theorem resolve_target_shapes:
  "(paces zone = None \<longrightarrow>
      get_target_speed_zone paces (PStr zone) = Inr get_no_target
      \<and> workoutTargetTypeId get_no_target = 1)
   \<and> (paces zone = Some pace_str \<and> pace_to_speed pace_str = Inr speed \<longrightarrow>
      get_target_speed_zone paces (PStr zone) =
        Inr \<lparr>workoutTargetTypeId = 6, workoutTargetTypeKey = ''pace.zone'',
             targetValueOne = Some (speed * 0.95), targetValueTwo = Some (speed * 1.05)\<rparr>)"
  by (simp add: get_no_target_def)

theorem resolve_target_shapes_witness:
  "tuesday_paces ''vo2max'' = None
   \<and> get_target_speed_zone tuesday_paces (PStr ''vo2max'') = Inr get_no_target
   \<and> tuesday_paces ''lactate_threshold'' = Some ''6:30''
   \<and> pace_to_speed ''6:30'' = Inr (1609.34 / 390)
   \<and> get_target_speed_zone tuesday_paces (PStr ''lactate_threshold'') =
        Inr \<lparr>workoutTargetTypeId = 6, workoutTargetTypeKey = ''pace.zone'',
             targetValueOne = Some (1609.34 / 390 * 0.95),
             targetValueTwo = Some (1609.34 / 390 * 1.05)\<rparr>"
  using pace_6_30
    resolve_target_shapes [of tuesday_paces "''vo2max''"]
    resolve_target_shapes [of tuesday_paces "''lactate_threshold''" "''6:30''" "1609.34 / 390"]
  by (simp add: tuesday_paces_def)

section \<open>Target types of compiled leaves (C8)\<close>

lemma step_ok_group [simp]:
  "step_ok (create_repeat_group n it ss) \<longleftrightarrow> list_all step_ok ss"
  by (induction ss) (simp_all add: step_ok_def create_repeat_group_def)

lemma resolved_target_id:
  "get_target_speed_zone paces z = Inr t \<Longrightarrow>
   workoutTargetTypeId t = 1 \<or> workoutTargetTypeId t = 6"
  by (cases z) (auto simp: get_no_target_def ebind_Inr_iff split: option.splits)

lemma step_ok_leaf:
  "workoutTargetTypeId t = 1 \<or> workoutTargetTypeId t = 6 \<Longrightarrow>
   step_ok (create_executable_step n a b c d v (Some t))"
  by (simp add: step_ok_def target_id_ok_def create_executable_step_def Let_def)

lemma step_ok_resolved:
  "get_target_speed_zone paces z = Inr t \<Longrightarrow>
   step_ok (create_executable_step n a b c d v (Some t))"
  by (rule step_ok_leaf) (rule resolved_target_id)

lemma step_ok_no_target:
  "step_ok (create_executable_step n a b c d v (Some get_no_target))"
  by (rule step_ok_leaf) (simp add: get_no_target_def)

lemma build_warmup_ok:
  "build_warmup paces structure (steps, n) = Inr (steps', n') \<Longrightarrow> list_all step_ok steps \<Longrightarrow>
   list_all step_ok steps'"
  by (auto simp: build_warmup_def ebind_Inr_iff Let_def step_ok_resolved split: if_splits)

lemma build_work_ok: "build_work paces work = Inr s \<Longrightarrow> step_ok s"
  by (auto simp: build_work_def ebind_Inr_iff step_ok_resolved split: if_splits)

lemma build_rest_ok: "build_rest rest = Inr ss \<Longrightarrow> list_all step_ok ss"
  by (auto simp: build_rest_def ebind_Inr_iff step_ok_no_target split: if_splits)

lemma build_intervals_ok:
  "build_intervals paces structure (steps, n) = Inr (steps', n') \<Longrightarrow> list_all step_ok steps \<Longrightarrow>
   list_all step_ok steps'"
  by (auto simp: build_intervals_def ebind_Inr_iff Let_def build_work_ok build_rest_ok
      split: if_splits)

lemma build_main_ok:
  "build_main paces structure (steps, n) = Inr (steps', n') \<Longrightarrow> list_all step_ok steps \<Longrightarrow>
   list_all step_ok steps'"
  by (auto simp: build_main_def ebind_Inr_iff Let_def step_ok_resolved split: if_splits)

lemma build_cooldown_ok:
  "build_cooldown paces structure (steps, n) = Inr (steps', n') \<Longrightarrow> list_all step_ok steps \<Longrightarrow>
   list_all step_ok steps'"
  by (auto simp: build_cooldown_def ebind_Inr_iff Let_def step_ok_resolved split: if_splits)

lemma build_structured_workout_ok:
  assumes "build_structured_workout paces structure n = Inr steps"
  shows "list_all step_ok steps"
proof -
  from assms obtain s1 n1 s2 n2 s3 n3 n4
    where w: "build_warmup paces structure ([], n) = Inr (s1, n1)"
      and i: "build_intervals paces structure (s1, n1) = Inr (s2, n2)"
      and m: "build_main paces structure (s2, n2) = Inr (s3, n3)"
      and c: "build_cooldown paces structure (s3, n3) = Inr (steps, n4)"
    by (auto simp: build_structured_workout_def ebind_Inr_iff)
  from w have "list_all step_ok s1" by (rule build_warmup_ok) simp
  with i have "list_all step_ok s2" by (rule build_intervals_ok)
  with m have "list_all step_ok s3" by (rule build_main_ok)
  with c show ?thesis by (rule build_cooldown_ok)
qed

lemma build_simple_workout_ok:
  "build_simple_workout paces ty dst n = Inr steps \<Longrightarrow> list_all step_ok steps"
  by (auto simp: build_simple_workout_def ebind_Inr_iff Let_def step_ok_resolved
      simp del: get_target_speed_zone.simps)

text \<open>
  C8.  Whatever the workout (simple or structured) and the pace table, every leaf step
  of a document the builder returns has the target-type id 1 (no target) or 6 (pace
  zone); in particular never 4 (heart rate).
\<close>

theorem target_type_one_or_six:
  assumes "build_workout_from_yaml paces workout_data week_number day_name = Inr doc"
  shows "\<forall>s \<in> set (workout_leaves doc).
           workoutTargetTypeId (targetType s) = 1 \<or> workoutTargetTypeId (targetType s) = 6"
proof -
  from assms have "list_all step_ok (workout_steps doc)"
    by (auto simp: build_workout_from_yaml_def ebind_Inr_iff Let_def workout_steps_def
        dest: build_structured_workout_ok build_simple_workout_ok split: if_splits)
  then show ?thesis
    by (auto simp: workout_leaves_def step_ok_def target_id_ok_def list_all_iff)
qed

theorem target_type_one_or_six_witness:
  "build_workout_from_yaml tuesday_paces tuesday_workout 1 ''tuesday'' = Inr tuesday_document
   \<and> map (\<lambda>s. workoutTargetTypeId (targetType s)) (workout_leaves tuesday_document) = [6, 1]
   \<and> list_all (\<lambda>s. workoutTargetTypeId (targetType s) = 1 \<or> workoutTargetTypeId (targetType s) = 6)
        (workout_leaves tuesday_document)"
  using tuesday_compiles target_type_one_or_six [OF tuesday_compiles]
  by (simp add: list_all_iff workout_leaves_def workout_steps_def tuesday_document_def
      tuesday_steps_def)

section \<open>A pace of zero seconds (C9)\<close>

text \<open>
  C9.  \<open>pace_to_speed\<close> divides 1609.34 by \<open>minutes * 60 + seconds\<close> without testing for
  zero: when the two parts parse, the result is that quotient if the sum is not zero and
  a \<open>ZeroDivisionError\<close> if it is, so for parts that are not negative it returns a
  speed exactly when the pace is positive.  So \<open>"0:00"\<close> fails with the division error, and
  \<open>get_target_speed_zone\<close> on a zone mapped to \<open>"0:00"\<close> fails with it too, instead of
  giving "no target".
\<close>

theorem pace_zero_division:
  "pace_to_speed ''0:00'' = Inl ZeroDivisionError
   \<and> (paces zone = Some ''0:00'' \<longrightarrow>
        get_target_speed_zone paces (PStr zone) = Inl ZeroDivisionError)
   \<and> (index (split_on CHR '':'' p) 0 = Inr a \<and> int_of_str a = Inr m
      \<and> index (split_on CHR '':'' p) 1 = Inr b \<and> int_of_str b = Inr s \<longrightarrow>
        pace_to_speed p = (if m * 60 + s = 0 then Inl ZeroDivisionError
                           else Inr (1609.34 / of_int (m * 60 + s)))
        \<and> (0 \<le> m \<and> 0 \<le> s \<longrightarrow> ((\<exists>v. pace_to_speed p = Inr v) \<longleftrightarrow> 0 < m * 60 + s)))"
proof -
  have z: "pace_to_speed ''0:00'' = Inl ZeroDivisionError"
    by (simp add: conv_defs str_defs)
  have g: "index (split_on CHR '':'' p) 0 = Inr a \<and> int_of_str a = Inr m
      \<and> index (split_on CHR '':'' p) 1 = Inr b \<and> int_of_str b = Inr s \<longrightarrow>
        pace_to_speed p = (if m * 60 + s = 0 then Inl ZeroDivisionError
                           else Inr (1609.34 / of_int (m * 60 + s)))"
    by (simp add: pace_to_speed_def meters_per_mile_def Let_def)
  have t: "0 \<le> m \<and> 0 \<le> s \<Longrightarrow> (m * 60 + s = 0) = (\<not> 0 < m * 60 + s)"
    by arith
  from z g t show ?thesis by auto
qed

theorem pace_zero_division_witness:
  "get_target_speed_zone [''recovery'' \<mapsto> ''0:00''] (PStr ''recovery'') = Inl ZeroDivisionError
   \<and> pace_to_speed ''7:02'' = Inr (1609.34 / 422)
   \<and> pace_to_speed ''0:0'' = Inl ZeroDivisionError"
proof -
  have s1: "split_on CHR '':'' ''7:02'' = [''7'', ''02'']" by simp
  have s2: "split_on CHR '':'' ''0:0'' = [''0'', ''0'']" by simp
  have i: "int_of_str ''7'' = Inr 7" "int_of_str ''02'' = Inr 2" "int_of_str ''0'' = Inr 0"
    by (simp_all add: str_defs)
  show ?thesis
    using pace_zero_division [of "[''recovery'' \<mapsto> ''0:00'']" "''recovery''" "''7:02''" "''7''" 7 "''02''" 2]
      pace_zero_division [of "[''recovery'' \<mapsto> ''0:00'']" "''recovery''" "''0:0''" "''0''" 0 "''0''" 0]
      s1 s2 i
    by (simp add: index_def)
qed

section \<open>Falsy distances (C10)\<close>

text \<open>
  C10.  In the simple path a falsy distance (absent or null, both \<open>None\<close> after
  \<open>workout_data.get('distance')\<close>, or the number 0) is replaced by 5 miles: when the pace
  zone of the workout type resolves to a target, the workout compiles to the single leaf
  terminated by distance after \<open>5 * 1609.34\<close> meters, also from the document builder.
\<close>

theorem falsy_distance_default:
  assumes "\<not> truthy distance"
      and "pace_zone_for workout_type = Inr zone"
      and "get_target_speed_zone paces (PStr zone) = Inr tgt"
  shows "build_simple_workout paces workout_type distance n =
           Inr [create_executable_step n 3 ''interval'' 3 ''distance'' (PFloat (5 * 1609.34))
                  (Some tgt)]
       \<and> (py_get workout_data ''type'' (PStr ''general_aerobic'') = Inr workout_type
          \<and> py_get workout_data ''distance'' PNone = Inr distance
          \<and> py_in ''structure'' workout_data = Inr False \<longrightarrow>
          map_sum id workout_steps
            (build_workout_from_yaml paces workout_data week_number day_name) =
           Inr [create_executable_step 1 3 ''interval'' 3 ''distance'' (PFloat (5 * 1609.34))
                  (Some tgt)])"
proof -
  have simple: "build_simple_workout paces workout_type distance k =
      Inr [create_executable_step k 3 ''interval'' 3 ''distance'' (PFloat (5 * 1609.34))
             (Some tgt)]" for k
    using assms
    by (simp add: build_simple_workout_def meters_per_mile_def del: get_target_speed_zone.simps)
  have est: "py_get workout_data ''distance'' PNone = Inr distance \<Longrightarrow>
             estimate_duration workout_data = Inr 3600"
    using assms(1) by (simp add: estimate_duration_def)
  have descr: "py_get workout_data ''type'' (PStr ''general_aerobic'') = Inr workout_type \<Longrightarrow>
               \<exists>v. py_get workout_data ''description'' (PStr []) = Inr v"
    by (cases workout_data) simp_all
  show ?thesis
    using simple est descr
    by (auto simp: build_workout_from_yaml_def workout_steps_def Let_def)
qed

theorem falsy_distance_default_witness:
  "\<not> truthy PNone \<and> \<not> truthy (PInt 0) \<and> \<not> truthy (PFloat 0)
   \<and> build_simple_workout Map.empty (PStr ''recovery'') (PInt 0) 1 = Inr [five_mile_step]
   \<and> map_sum id workout_steps
       (build_workout_from_yaml Map.empty
          (PDict [(''type'', PStr ''recovery''), (''distance'', PInt 0)]) 3 ''friday'') =
     Inr [five_mile_step]"
proof -
  have f: "\<not> truthy (PInt 0)" by simp
  have z: "pace_zone_for (PStr ''recovery'') = Inr ''recovery''"
    by (simp add: pace_zone_map_def)
  have t: "get_target_speed_zone Map.empty (PStr ''recovery'') = Inr get_no_target"
    by simp
  show ?thesis
    using falsy_distance_default [OF f z t, of 1
        "PDict [(''type'', PStr ''recovery''), (''distance'', PInt 0)]" 3 "''friday''"]
    by (simp add: five_mile_step_def create_executable_step_def get_no_target_def)
qed

end
